theory Spec2Isabelle
  imports Complex_Main
begin

section \<open>The dashboard script \<^verbatim>\<open>fastAPI_app/static/js/script.js\<close>\<close>

text \<open>
  The script keeps two globals (\<^verbatim>\<open>accessToken\<close>, \<^verbatim>\<open>transactionChart\<close>) and
  registers callbacks with the browser: the click handler \<^verbatim>\<open>login\<close>, the four
  WebSocket handlers installed by \<^verbatim>\<open>connectWebSocket\<close>, and the timer callback
  \<^verbatim>\<open>connectWebSocket\<close> itself. Each callback is embedded as a function on an explicit
  page state. What the browser does (delivering events, JSON.parse, fetch, the WebSocket
  object, setTimeout, Chart.js) is not in the repository; the assumptions made about it
  are written next to the definition that uses them.
\<close>

subsection \<open>JavaScript values\<close>

text \<open>
  Values as \<^verbatim>\<open>JSON.parse\<close> and property reads produce them. Numbers are kept
  opaque (type \<open>'n\<close>): the script never computes with a number, it only stores amounts
  and, in two places, converts a value to a string. An object is the list of its members
  in source order; a later member with the same key wins, as in \<^verbatim>\<open>JSON.parse\<close>.
  Strings are lists of code units, so \<^verbatim>\<open>substring\<close> is \<open>take\<close>.
\<close>

datatype 'n jsval =
    JUndefined
  | JNull
  | JBool bool
  | JNum 'n
  | JStr string
  | JArr "'n jsval list"
  | JObj "(string \<times> 'n jsval) list"

text \<open>
  The exceptions that reach the script: the SyntaxError of \<^verbatim>\<open>JSON.parse\<close>,
  \<^verbatim>\<open>response.json()\<close> and the WebSocket constructor, the TypeError of the language
  and of \<^verbatim>\<open>fetch\<close>, and the plain \<^verbatim>\<open>Error\<close> that the Chart constructor throws
  for a canvas that is already in use.
\<close>

datatype js_error = SyntaxError | TypeError | CanvasInUseError

datatype completion = Normal | Throw js_error

text \<open>
  Reading a property \<^verbatim>\<open>v.k\<close>. The script reads only the names
  \<^verbatim>\<open>transaction_id\<close>, \<^verbatim>\<open>transaction_details\<close>, \<^verbatim>\<open>amount\<close>,
  \<^verbatim>\<open>access_token\<close> and \<^verbatim>\<open>detail\<close>, none of which is a built-in property of
  a string, number, boolean or array, so on those the read gives \<^verbatim>\<open>undefined\<close>;
  on \<^verbatim>\<open>undefined\<close> and \<^verbatim>\<open>null\<close> it throws a TypeError.
\<close>

fun get :: "'n jsval \<Rightarrow> string \<Rightarrow> js_error + 'n jsval" where
  "get JUndefined k = Inl TypeError"
| "get JNull k = Inl TypeError"
| "get (JObj kvs) k = Inr (case map_of (rev kvs) k of None \<Rightarrow> JUndefined | Some v \<Rightarrow> v)"
| "get v k = Inr JUndefined"

text \<open>
  The call \<^verbatim>\<open>v.substring(0, 8)\<close>: the first 8 code units of a string; on any other
  value either the property read throws or \<^verbatim>\<open>substring\<close> is not a function, a
  TypeError in both cases.
\<close>

fun substring_0_8 :: "'n jsval \<Rightarrow> js_error + string" where
  "substring_0_8 (JStr s) = Inr (take 8 s)"
| "substring_0_8 v = Inl TypeError"

text \<open>
  String conversion, as string concatenation and template literals apply it. The
  conversion of a number is the host's \<^verbatim>\<open>Number.prototype.toString\<close>, taken as the
  parameter \<open>nts\<close>. An array joins the conversions of its elements with commas,
  \<^verbatim>\<open>undefined\<close> and \<^verbatim>\<open>null\<close> elements giving the empty string. An object
  is converted by its \<^verbatim>\<open>toString\<close> method: a parsed object inherits the one that
  gives \<^verbatim>\<open>[object Object]\<close>, unless it has a member named \<^verbatim>\<open>toString\<close> of its
  own, which is never a function and leaves the object without a conversion: a TypeError,
  in a template literal as well as under \<^verbatim>\<open>+\<close>.
\<close>

fun join_comma :: "string list \<Rightarrow> string" where
  "join_comma [] = []"
| "join_comma [x] = x"
| "join_comma (x # y # ys) = x @ '','' @ join_comma (y # ys)"

fun ToString :: "('n \<Rightarrow> string) \<Rightarrow> 'n jsval \<Rightarrow> js_error + string" where
  "ToString nts JUndefined = Inr ''undefined''"
| "ToString nts JNull = Inr ''null''"
| "ToString nts (JBool b) = Inr (if b then ''true'' else ''false'')"
| "ToString nts (JNum n) = Inr (nts n)"
| "ToString nts (JStr s) = Inr s"
| "ToString nts (JArr xs) =
     (let rs = map (\<lambda>x. if x = JUndefined \<or> x = JNull then Inr [] else ToString nts x) xs
      in if list_ex isl rs then Inl TypeError else Inr (join_comma (map projr rs)))"
| "ToString nts (JObj kvs) =
     (if ''toString'' \<in> set (map fst kvs) then Inl TypeError else Inr ''[object Object]'')"

subsection \<open>The chart widget\<close>

text \<open>
  The Chart.js object built by \<^verbatim>\<open>initializeChart\<close>: \<open>labels\<close> is
  \<^verbatim>\<open>data.labels\<close>, \<open>amounts\<close> is \<^verbatim>\<open>data.datasets[0].data\<close>. These two arrays
  are the stream buffer; the script has no other copy. \<open>drawn\<close> is what the widget shows:
  the label and value sequences of its last redraw. The constant fields (type, colours,
  axis titles) are left out.
\<close>

record 'n chart =
  labels :: "string list"
  amounts :: "'n jsval list"
  drawn :: "string list \<times> 'n jsval list"

definition new_Chart :: "'n chart" where
  "new_Chart = \<lparr>labels = [], amounts = [], drawn = ([], [])\<rparr>"

text \<open>
  Modelled from the spec: \<^verbatim>\<open>Chart.prototype.update\<close> belongs to the Chart.js
  library, which is not part of the repository. The spec's render step "replaces the chart
  widget's label sequence and value sequence with the current contents of the Stream
  Buffer, in order, then requests a redraw".
\<close>

definition update :: "'n chart \<Rightarrow> 'n chart" where
  "update c = c\<lparr>drawn := (labels c, amounts c)\<rparr>"

subsection \<open>The page state\<close>

datatype ready_state = CONNECTING | OPEN | CLOSING | CLOSED

record websocket =
  url :: string
  readyState :: ready_state

text \<open>
  The globals of the script, the DOM properties it writes, the parts of
  \<^verbatim>\<open>window.location\<close> it reads, every WebSocket it has constructed (in order of
  construction), the due times of the pending \<^verbatim>\<open>setTimeout(connectWebSocket, 5000)\<close>
  timers, and the clock in milliseconds.
\<close>

record 'n page =
  accessToken :: "'n jsval"
  transactionChart :: "'n chart option"
  login_status :: string
  login_form_display :: string
  chart_container_display :: string
  location_protocol :: string
  location_host :: string
  sockets :: "websocket list"
  timers :: "nat list"
  now :: nat

subsection \<open>initializeChart (lines 7-39)\<close>

text \<open>
  The canvas element is taken to exist. The options of lines 22-35 (\<^verbatim>\<open>scales.x\<close>,
  \<^verbatim>\<open>scales.y\<close>) are those of Chart.js 3 and later, whose constructor refuses a canvas
  that already carries a chart: it throws, and the assignment of line 9 does not happen.
  The script builds charts on this one canvas only, so the canvas is in use exactly when
  \<^verbatim>\<open>transactionChart\<close> holds a chart.
\<close>

definition initializeChart :: "'n page \<Rightarrow> completion \<times> 'n page" where
  "initializeChart s =
     (case transactionChart s of
        None \<Rightarrow> (Normal, s\<lparr>transactionChart := Some new_Chart\<rparr>)
      | Some c \<Rightarrow> (Throw CanvasInUseError, s))"

subsection \<open>connectWebSocket (lines 69-105)\<close>

text \<open>
  Lines 70-71: the URL is built from the page's protocol and host and the current
  \<^verbatim>\<open>accessToken\<close>; the template literal converts the token to a string (\<open>token\<close>
  below is that string), which can throw.
\<close>

definition wsUrl :: "'n page \<Rightarrow> string \<Rightarrow> string" where
  "wsUrl s token =
     (if location_protocol s = ''https:'' then ''wss'' else ''ws'') @ ''://'' @
     location_host s @ ''/ws/transactions?token='' @ token"

text \<open>
  Line 72: the WebSocket constructor. \<^verbatim>\<open>window.location.host\<close> is the host (and port)
  the page was loaded from, so the URL parses up to the token; the token is the query,
  where every character is accepted, except that a \<^verbatim>\<open>#\<close> starts a fragment, and the
  constructor throws a SyntaxError for a URL with a fragment. Otherwise it returns a new
  socket, which is CONNECTING. When line 71 or 72 throws, no socket exists and no handler
  has been installed. The four handlers assigned in lines 74-104 are the functions
  \<open>onopen\<close>, \<open>onmessage\<close>, \<open>onclose\<close> and \<open>onerror\<close> below.
\<close>

definition connectWebSocket :: "('n \<Rightarrow> string) \<Rightarrow> 'n page \<Rightarrow> completion \<times> 'n page" where
  "connectWebSocket nts s =
     (case ToString nts (accessToken s) of
        Inl e \<Rightarrow> (Throw e, s)
      | Inr token \<Rightarrow>
          if CHR ''#'' \<in> set token then (Throw SyntaxError, s)
          else (Normal, s\<lparr>sockets := sockets s @
                  [\<lparr>url = wsUrl s token, readyState = CONNECTING\<rparr>]\<rparr>))"

text \<open>Lines 74-76: \<^verbatim>\<open>onopen\<close> only logs.\<close>

definition onopen :: "'n page \<Rightarrow> 'n page" where
  "onopen s = s"

text \<open>
  Lines 79-81: the three constants of \<^verbatim>\<open>onmessage\<close>, evaluated in order. The
  argument is the outcome of \<^verbatim>\<open>JSON.parse(event.data)\<close>: \<open>None\<close> when it throws a
  SyntaxError, otherwise the parsed value.
\<close>

definition chart_point :: "'n jsval option \<Rightarrow> js_error + (string \<times> 'n jsval)" where
  "chart_point parsed =
     (case parsed of
        None \<Rightarrow> Inl SyntaxError
      | Some transaction \<Rightarrow>
          (case get transaction ''transaction_id'' of
             Inl e \<Rightarrow> Inl e
           | Inr tid \<Rightarrow>
               (case substring_0_8 tid of
                  Inl e \<Rightarrow> Inl e
                | Inr label \<Rightarrow>
                    (case get transaction ''transaction_details'' of
                       Inl e \<Rightarrow> Inl e
                     | Inr details \<Rightarrow>
                         (case get details ''amount'' of
                            Inl e \<Rightarrow> Inl e
                          | Inr amount \<Rightarrow> Inr (label, amount))))))"

text \<open>
  Lines 84-93: push onto both arrays; if the labels array is now longer than 20, shift
  both (\<^verbatim>\<open>shift\<close> on an empty array does nothing, as \<open>tl\<close>); then update the chart.
\<close>

definition push_point :: "string \<Rightarrow> 'n jsval \<Rightarrow> 'n chart \<Rightarrow> 'n chart" where
  "push_point label amount c =
     (let c1 = c\<lparr>labels := labels c @ [label]\<rparr>;
          c2 = c1\<lparr>amounts := amounts c1 @ [amount]\<rparr>;
          c3 = (if length (labels c2) > 20
                then c2\<lparr>labels := tl (labels c2), amounts := tl (amounts c2)\<rparr>
                else c2)
      in update c3)"

text \<open>
  The handler returns how it completed and the state it left. There is no
  \<^verbatim>\<open>try\<close> in the script: an exception leaves the handler. Every statement that can
  throw comes before the first mutation.
\<close>

definition onmessage :: "'n page \<Rightarrow> 'n jsval option \<Rightarrow> completion \<times> 'n page" where
  "onmessage s parsed =
     (case chart_point parsed of
        Inl e \<Rightarrow> (Throw e, s)
      | Inr (label, amount) \<Rightarrow>
          (case transactionChart s of
             None \<Rightarrow> (Throw TypeError, s)
           | Some c \<Rightarrow> (Normal, s\<lparr>transactionChart := Some (push_point label amount c)\<rparr>)))"

text \<open>Lines 96-99: \<^verbatim>\<open>onclose\<close> logs and sets a timer of 5000 ms.\<close>

definition onclose :: "'n page \<Rightarrow> 'n page" where
  "onclose s = s\<lparr>timers := timers s @ [now s + 5000]\<rparr>"

text \<open>
  Lines 101-104: \<^verbatim>\<open>onerror\<close> logs and calls \<^verbatim>\<open>ws.close()\<close> on the socket
  of its own \<^verbatim>\<open>connectWebSocket\<close> call. \<^verbatim>\<open>close()\<close> moves a CONNECTING or OPEN
  socket to CLOSING and does nothing otherwise; it dispatches no event itself.
\<close>

definition ws_close :: "websocket \<Rightarrow> websocket" where
  "ws_close w =
     (if readyState w = CONNECTING \<or> readyState w = OPEN then w\<lparr>readyState := CLOSING\<rparr> else w)"

definition onerror :: "'n page \<Rightarrow> nat \<Rightarrow> 'n page" where
  "onerror s i = s\<lparr>sockets := (sockets s)[i := ws_close (sockets s ! i)]\<rparr>"

subsection \<open>login (lines 42-66)\<close>

text \<open>
  The part of \<^verbatim>\<open>login\<close> before the first \<^verbatim>\<open>await\<close> reads the two input fields
  and sends the request; it changes nothing on the page. The rest runs when the response
  arrives, given here as \<open>None\<close> when \<^verbatim>\<open>fetch\<close> rejects, otherwise the status and the
  outcome of \<^verbatim>\<open>response.json()\<close> (\<open>None\<close> when that rejects). The statements of
  lines 57-62 run in order; when \<^verbatim>\<open>initializeChart\<close> or \<^verbatim>\<open>connectWebSocket\<close>
  throws, the assignments made before stay.
\<close>

definition login ::
  "('n \<Rightarrow> string) \<Rightarrow> 'n page \<Rightarrow> (nat \<times> 'n jsval option) option \<Rightarrow> completion \<times> 'n page" where
  "login nts s response =
     (case response of
        None \<Rightarrow> (Throw TypeError, s)
      | Some (status, body) \<Rightarrow>
          (case body of
             None \<Rightarrow> (Throw SyntaxError, s)
           | Some data \<Rightarrow>
               if status = 200 then
                 (case get data ''access_token'' of
                    Inl e \<Rightarrow> (Throw e, s)
                  | Inr token \<Rightarrow>
                      (let s1 = s\<lparr>accessToken := token\<rparr>;
                           s2 = s1\<lparr>login_status := ''Login successful!''\<rparr>;
                           s3 = s2\<lparr>login_form_display := ''none''\<rparr>;
                           s4 = s3\<lparr>chart_container_display := ''block''\<rparr>
                       in (case initializeChart s4 of
                             (Throw e, s5) \<Rightarrow> (Throw e, s5)
                           | (Normal, s5) \<Rightarrow> connectWebSocket nts s5)))
               else
                 (case get data ''detail'' of
                    Inl e \<Rightarrow> (Throw e, s)
                  | Inr detail \<Rightarrow>
                      (case ToString nts detail of
                         Inl e \<Rightarrow> (Throw e, s)
                       | Inr text \<Rightarrow>
                           (Normal, s\<lparr>login_status := ''Login failed: '' @ text\<rparr>)))))"

subsection \<open>The event loop\<close>

text \<open>
  Messages handed to \<^verbatim>\<open>onmessage\<close> one after the other. An exception ends the
  handler of that message only; the next message finds the state the handler left.
\<close>

fun deliver :: "'n page \<Rightarrow> 'n jsval option list \<Rightarrow> 'n page" where
  "deliver s [] = s"
| "deliver s (m # ms) = deliver (snd (onmessage s m)) ms"

text \<open>
  The events of the transport client. The browser runs one callback at a time, so a
  run is a list of events. What the browser guarantees is written as the condition under
  which an event can occur:
  \<^item> \<open>Open i\<close>: socket \<open>i\<close> was CONNECTING; it becomes OPEN and \<^verbatim>\<open>onopen\<close> runs.
  \<^item> \<open>Message i parsed\<close>: socket \<open>i\<close> is OPEN; \<^verbatim>\<open>onmessage\<close> runs. The state
    after the event is the one the handler left, whether or not it threw.
  \<^item> \<open>Error i\<close>: an error is reported on a socket whose close event has not been
    dispatched yet; \<^verbatim>\<open>onerror\<close> runs.
  \<^item> \<open>Close i was_error\<close>: the close event of socket \<open>i\<close>, dispatched once per
    socket. The socket becomes CLOSED; when the close was caused by an error, the error
    event is dispatched first in the same turn of the event loop, then \<^verbatim>\<open>onclose\<close> runs.
  \<^item> \<open>Timeout k\<close>: the pending timer \<open>k\<close> fires, which the browser does no earlier
    than its due time; the timer is removed and its callback \<^verbatim>\<open>connectWebSocket\<close>
    runs. When the callback throws, the state is the one it left: the timer is gone and
    no socket was constructed.
  \<^item> \<open>Tick d\<close>: \<open>d\<close> milliseconds pass.
  \<open>step\<close> returns \<open>None\<close> for an event that cannot occur in the state.
\<close>

datatype 'n event =
    Open nat
  | Message nat "'n jsval option"
  | Error nat
  | Close nat bool
  | Timeout nat
  | Tick nat

definition set_readyState :: "nat \<Rightarrow> ready_state \<Rightarrow> 'n page \<Rightarrow> 'n page" where
  "set_readyState i r s = s\<lparr>sockets := (sockets s)[i := (sockets s ! i)\<lparr>readyState := r\<rparr>]\<rparr>"

fun step :: "('n \<Rightarrow> string) \<Rightarrow> 'n page \<Rightarrow> 'n event \<Rightarrow> 'n page option" where
  "step nts s (Open i) =
     (if i < length (sockets s) \<and> readyState (sockets s ! i) = CONNECTING
      then Some (onopen (set_readyState i OPEN s)) else None)"
| "step nts s (Message i parsed) =
     (if i < length (sockets s) \<and> readyState (sockets s ! i) = OPEN
      then Some (snd (onmessage s parsed)) else None)"
| "step nts s (Error i) =
     (if i < length (sockets s) \<and> readyState (sockets s ! i) \<noteq> CLOSED
      then Some (onerror s i) else None)"
| "step nts s (Close i was_error) =
     (if i < length (sockets s) \<and> readyState (sockets s ! i) \<noteq> CLOSED
      then (let s1 = set_readyState i CLOSED s;
                s2 = (if was_error then onerror s1 i else s1)
            in Some (onclose s2))
      else None)"
| "step nts s (Timeout k) =
     (if k < length (timers s) \<and> timers s ! k \<le> now s
      then Some (snd (connectWebSocket nts
                        (s\<lparr>timers := take k (timers s) @ drop (Suc k) (timers s)\<rparr>)))
      else None)"
| "step nts s (Tick d) = Some (s\<lparr>now := now s + d\<rparr>)"

fun run :: "('n \<Rightarrow> string) \<Rightarrow> 'n page \<Rightarrow> 'n event list \<Rightarrow> 'n page option" where
  "run nts s [] = Some s"
| "run nts s (e # es) = (case step nts s e of None \<Rightarrow> None | Some s' \<Rightarrow> run nts s' es)"

text \<open>The sockets whose close event is still to come (CONNECTING, OPEN or CLOSING).\<close>

definition live :: "'n page \<Rightarrow> nat" where
  "live s = length (filter (\<lambda>w. readyState w \<noteq> CLOSED) (sockets s))"

text \<open>Both chart arrays have the same length (no chart yet: nothing to compare).\<close>

definition lengths_agree :: "'n page \<Rightarrow> bool" where
  "lengths_agree s =
     (case transactionChart s of None \<Rightarrow> True
      | Some c \<Rightarrow> length (labels c) = length (amounts c))"

subsection \<open>Example inputs\<close>

text \<open>
  The page as the script finds it: lines 3-4 initialise the globals; the chart container
  is hidden and the login form shown; no socket, no timer. Numbers are rationals in the
  examples (42.5 is \<open>85 / 2\<close>); no example converts a number to a string, so the number
  conversion is a stand-in.
\<close>

definition page_at_load :: "rat page" where
  "page_at_load =
     \<lparr>accessToken = JStr [], transactionChart = None, login_status = [],
      login_form_display = ''block'', chart_container_display = ''none'',
      location_protocol = ''http:'', location_host = ''localhost:8000'',
      sockets = [], timers = [], now = 0\<rparr>"

definition no_number_text :: "rat \<Rightarrow> string" where
  "no_number_text q = []"

text \<open>The page after a first login that was answered with the token \<^verbatim>\<open>abc123\<close>.\<close>

definition page_logged_in :: "rat page" where
  "page_logged_in =
     snd (login no_number_text page_at_load
            (Some (200, Some (JObj [(''access_token'', JStr ''abc123'')]))))"

definition example_message :: "nat \<Rightarrow> rat jsval option" where
  "example_message i =
     Some (JObj [(''transaction_id'', JStr (''tx-'' @ replicate i (CHR ''x'') @ ''-0123456789'')),
                 (''transaction_details'', JObj [(''amount'', JNum (of_nat i / 2))])])"

definition example_point :: "nat \<Rightarrow> string \<times> rat jsval" where
  "example_point i =
     (take 8 (''tx-'' @ replicate i (CHR ''x'') @ ''-0123456789''), JNum (of_nat i / 2))"

section \<open>The stream buffer\<close>

subsection \<open>The chart constructor\<close>

lemma initializeChart_unused:
  "transactionChart s = None \<Longrightarrow>
   initializeChart s = (Normal, s\<lparr>transactionChart := Some new_Chart\<rparr>)"
  by (simp add: initializeChart_def)

lemma initializeChart_in_use:
  "transactionChart s = Some c \<Longrightarrow> initializeChart s = (Throw CanvasInUseError, s)"
  by (simp add: initializeChart_def)

lemma initializeChart_agree: "lengths_agree s \<Longrightarrow> lengths_agree (snd (initializeChart s))"
  by (auto simp: lengths_agree_def initializeChart_def new_Chart_def split: option.splits)

lemma page_at_load_unused: "transactionChart page_at_load = None"
  by (simp add: page_at_load_def)

subsection \<open>One append slides the window\<close>

lemma slide_drop:
  assumes "length xs \<le> 20"
  shows "(if length (xs @ [x]) > 20 then tl (xs @ [x]) else xs @ [x]) =
         drop (length (xs @ [x]) - 20) (xs @ [x])"
proof (cases "length xs = 20")
  case True
  then have "length (xs @ [x]) - 20 = Suc 0" by simp
  then have "drop (length (xs @ [x]) - 20) (xs @ [x]) = tl (xs @ [x])"
    by (simp only: drop_Suc drop_0)
  with True show ?thesis by simp
next
  case False
  with assms have "length (xs @ [x]) - 20 = 0" by simp
  then have "drop (length (xs @ [x]) - 20) (xs @ [x]) = xs @ [x]"
    by (simp only: drop_0)
  with False assms show ?thesis by simp
qed

lemma push_point_labels:
  assumes "length (labels c) \<le> 20"
  shows "labels (push_point l a c) = drop (length (labels c @ [l]) - 20) (labels c @ [l])"
proof -
  have "labels (push_point l a c) =
        (if length (labels c @ [l]) > 20 then tl (labels c @ [l]) else labels c @ [l])"
    by (simp add: push_point_def update_def Let_def)
  also have "\<dots> = drop (length (labels c @ [l]) - 20) (labels c @ [l])"
    using assms by (rule slide_drop)
  finally show ?thesis .
qed

lemma push_point_amounts:
  assumes "length (amounts c) = length (labels c)" "length (labels c) \<le> 20"
  shows "amounts (push_point l a c) = drop (length (amounts c @ [a]) - 20) (amounts c @ [a])"
proof -
  have "amounts (push_point l a c) =
        (if length (amounts c @ [a]) > 20 then tl (amounts c @ [a]) else amounts c @ [a])"
    using assms(1) by (simp add: push_point_def update_def Let_def)
  also have "\<dots> = drop (length (amounts c @ [a]) - 20) (amounts c @ [a])"
    using assms by (intro slide_drop) simp
  finally show ?thesis .
qed

lemma push_point_length:
  "length (labels c) \<le> 20 \<Longrightarrow> length (labels (push_point l a c)) = min (Suc (length (labels c))) 20"
  by (simp add: push_point_def update_def Let_def)

lemma push_point_agree:
  "length (labels c) = length (amounts c) \<Longrightarrow>
   length (labels (push_point l a c)) = length (amounts (push_point l a c))"
  by (simp add: push_point_def update_def Let_def)

lemma drop_window_snoc:
  fixes xs :: "'a list"
  assumes "length xs \<le> 20"
  shows "drop (length (drop (length (xs @ [x]) - 20) (xs @ [x]) @ ys) - 20)
           (drop (length (xs @ [x]) - 20) (xs @ [x]) @ ys)
         = drop (length (xs @ x # ys) - 20) (xs @ x # ys)"
proof (cases "length xs = 20")
  case True
  then have d: "drop (length (xs @ [x]) - 20) (xs @ [x]) = tl xs @ [x]" and ne: "xs \<noteq> []"
    by (auto simp: drop_Suc)
  have l: "length (tl xs @ [x]) = 20" using True by simp
  have "drop (length ((tl xs @ [x]) @ ys) - 20) ((tl xs @ [x]) @ ys)
        = drop (length ys) (tl xs @ [x]) @ drop (length ys - 20) ys"
    using l by (simp del: append_assoc)
  also have "\<dots> = drop (Suc (length ys)) xs @ drop (length ys - 19) (x # ys)"
    using ne True by (cases xs; cases ys) (auto simp: drop_Cons' )
  finally show ?thesis unfolding d using True by (simp add: drop_Cons')
next
  case False
  with assms have "length (xs @ [x]) - 20 = 0" by simp
  then have "drop (length (xs @ [x]) - 20) (xs @ [x]) = xs @ [x]" by (simp only: drop_0)
  then show ?thesis by simp
qed

subsection \<open>The handler on one message\<close>

lemma onmessage_throw:
  "chart_point m = Inl e \<Longrightarrow> onmessage s m = (Throw e, s)"
  by (simp add: onmessage_def)

lemma onmessage_push:
  "chart_point m = Inr (l, a) \<Longrightarrow> transactionChart s = Some c \<Longrightarrow>
   onmessage s m = (Normal, s\<lparr>transactionChart := Some (push_point l a c)\<rparr>)"
  by (simp add: onmessage_def)

lemma onmessage_agree: "lengths_agree s \<Longrightarrow> lengths_agree (snd (onmessage s m))"
  by (auto simp: lengths_agree_def onmessage_def push_point_agree
           split: sum.splits option.splits prod.splits)

lemma onmessage_transport:
  "sockets (snd (onmessage s m)) = sockets s \<and> timers (snd (onmessage s m)) = timers s \<and>
   now (snd (onmessage s m)) = now s \<and> accessToken (snd (onmessage s m)) = accessToken s"
  by (auto simp: onmessage_def split: sum.splits option.splits prod.splits)

lemma get_throws_TypeError: "get v k = Inl e \<Longrightarrow> e = TypeError"
  by (cases v) auto

lemma substring_throws_TypeError: "substring_0_8 v = Inl e \<Longrightarrow> e = TypeError"
  by (cases v) auto

lemma get_missing: "k \<notin> fst ` set kvs \<Longrightarrow> get (JObj kvs) k = Inr JUndefined"
  by (simp add: map_of_eq_None_iff[THEN iffD2])

lemma chart_point_no_id:
  "get t ''transaction_id'' = Inr JUndefined \<Longrightarrow> chart_point (Some t) = Inl TypeError"
  by (simp add: chart_point_def)

lemma chart_point_no_details:
  "get t ''transaction_details'' = Inr JUndefined \<Longrightarrow> chart_point (Some t) = Inl TypeError"
  by (auto simp: chart_point_def split: sum.splits
        dest: get_throws_TypeError substring_throws_TypeError)

lemma chart_point_example: "chart_point (example_message i) = Inr (example_point i)"
  by (simp add: chart_point_def example_message_def example_point_def)

subsection \<open>The handler on a sequence of messages\<close>

lemma deliver_length:
  "transactionChart s = Some c \<Longrightarrow> length (labels c) \<le> 20 \<Longrightarrow>
   \<exists>c'. transactionChart (deliver s ms) = Some c' \<and>
        length (labels c') =
          min (length (labels c) + length (filter (\<lambda>m. \<not> isl (chart_point m)) ms)) 20"
proof (induction ms arbitrary: s c)
  case Nil
  then show ?case by simp
next
  case (Cons m ms)
  show ?case
  proof (cases "chart_point m")
    case (Inl e)
    then have "snd (onmessage s m) = s" by (simp add: onmessage_throw)
    with Cons.IH[OF Cons.prems] Inl show ?thesis by simp
  next
    case (Inr p)
    obtain l a where p: "p = (l, a)" by (cases p)
    let ?c1 = "push_point l a c"
    have s1: "transactionChart (snd (onmessage s m)) = Some ?c1"
      using Inr p Cons.prems(1) by (simp add: onmessage_push)
    have n1: "length (labels ?c1) = min (Suc (length (labels c))) 20"
      using Cons.prems(2) by (rule push_point_length)
    then have le: "length (labels ?c1) \<le> 20" by simp
    from Cons.IH[OF s1 le] obtain c' where
      c': "transactionChart (deliver (snd (onmessage s m)) ms) = Some c'"
      "length (labels c') =
         min (length (labels ?c1) + length (filter (\<lambda>m. \<not> isl (chart_point m)) ms)) 20"
      by blast
    have "length (labels c') =
          min (length (labels c) + length (filter (\<lambda>m. \<not> isl (chart_point m)) (m # ms))) 20"
      using c'(2) n1 Inr by simp
    with c'(1) show ?thesis by simp
  qed
qed

lemma deliver_window:
  "map chart_point ms = map Inr pts \<Longrightarrow> transactionChart s = Some c \<Longrightarrow>
   length (amounts c) = length (labels c) \<Longrightarrow> length (labels c) \<le> 20 \<Longrightarrow>
   \<exists>c'. transactionChart (deliver s ms) = Some c' \<and>
        labels c' = drop (length (labels c @ map fst pts) - 20) (labels c @ map fst pts) \<and>
        amounts c' = drop (length (amounts c @ map snd pts) - 20) (amounts c @ map snd pts)"
proof (induction ms arbitrary: s c pts)
  case Nil
  then show ?case by simp
next
  case (Cons m ms)
  then obtain p ps where pts: "pts = p # ps" and m: "chart_point m = Inr p"
    and ms: "map chart_point ms = map Inr ps"
    by (cases pts) auto
  obtain l a where p: "p = (l, a)" by (cases p)
  let ?c1 = "push_point l a c"
  have s1: "transactionChart (snd (onmessage s m)) = Some ?c1"
    using m p Cons.prems(2) by (simp add: onmessage_def)
  have lab: "labels ?c1 = drop (length (labels c @ [l]) - 20) (labels c @ [l])"
    using Cons.prems(4) by (rule push_point_labels)
  have amt: "amounts ?c1 = drop (length (amounts c @ [a]) - 20) (amounts c @ [a])"
    using Cons.prems(3,4) by (rule push_point_amounts)
  have len: "length (amounts ?c1) = length (labels ?c1)" "length (labels ?c1) \<le> 20"
    unfolding lab amt using Cons.prems(3,4) by simp_all
  from Cons.IH[OF ms s1 len] obtain c' where
    c': "transactionChart (deliver (snd (onmessage s m)) ms) = Some c'"
    "labels c' = drop (length (labels ?c1 @ map fst ps) - 20) (labels ?c1 @ map fst ps)"
    "amounts c' = drop (length (amounts ?c1 @ map snd ps) - 20) (amounts ?c1 @ map snd ps)"
    by blast
  have "labels c' = drop (length (labels c @ map fst pts) - 20) (labels c @ map fst pts)"
    using c'(2) drop_window_snoc[OF Cons.prems(4), of l "map fst ps"]
    unfolding lab pts p by simp
  moreover have "amounts c' = drop (length (amounts c @ map snd pts) - 20) (amounts c @ map snd pts)"
    using c'(3) drop_window_snoc[of "amounts c" a "map snd ps"] Cons.prems(3,4)
    unfolding amt pts p by simp
  ultimately show ?case using c'(1) by simp
qed

lemma deliver_length_fresh:
  "map_option (\<lambda>c. length (labels c))
     (transactionChart (deliver (s\<lparr>transactionChart := Some new_Chart\<rparr>) ms)) =
   Some (min (length (filter (\<lambda>m. \<not> isl (chart_point m)) ms)) 20)"
  using deliver_length[of "s\<lparr>transactionChart := Some new_Chart\<rparr>" new_Chart ms]
  by (auto simp: new_Chart_def)

lemma deliver_window_fresh:
  assumes "map chart_point ms = map Inr pts"
  shows "map_option (\<lambda>c. (labels c, amounts c))
           (transactionChart (deliver (s\<lparr>transactionChart := Some new_Chart\<rparr>) ms)) =
         Some (map fst (drop (length pts - 20) pts), map snd (drop (length pts - 20) pts))"
  using deliver_window[OF assms, of "s\<lparr>transactionChart := Some new_Chart\<rparr>" new_Chart]
  by (auto simp: new_Chart_def drop_map)

text \<open>
  Claim C1. Starting from the empty chart that \<^verbatim>\<open>initializeChart\<close> builds on an
  unused canvas, and more generally from any page whose chart is that empty chart, after
  any sequence of messages the length of the labels array is the minimum of 20 and the
  number of points appended so far, that is, of the messages from which the handler could
  read a point. Every prefix of a sequence is a sequence, so this holds after each append;
  in particular the length never exceeds 20.
\<close>

theorem buffer_length_is_min:
  "(transactionChart s = None \<longrightarrow>
      map_option (\<lambda>c. length (labels c))
        (transactionChart (deliver (snd (initializeChart s)) ms)) =
      Some (min (length (filter (\<lambda>m. \<not> isl (chart_point m)) ms)) 20)) \<and>
   map_option (\<lambda>c. length (labels c))
     (transactionChart (deliver (s\<lparr>transactionChart := Some new_Chart\<rparr>) ms)) =
   Some (min (length (filter (\<lambda>m. \<not> isl (chart_point m)) ms)) 20)"
  using deliver_length_fresh[of s ms] by (simp add: initializeChart_unused)

theorem buffer_length_is_min_witness:
  "map_option (\<lambda>c. length (labels c))
     (transactionChart (deliver (snd (initializeChart page_at_load))
        [example_message 0, None, example_message 1])) = Some 2"
proof -
  have n: "min (length (filter (\<lambda>m. \<not> isl (chart_point m))
             [example_message 0, None, example_message 1])) 20 = 2"
    by (simp add: chart_point_example) (simp add: chart_point_def)
  from buffer_length_is_min[of page_at_load "[example_message 0, None, example_message 1]"]
    page_at_load_unused
  show ?thesis unfolding n by blast
qed

text \<open>
  Claim C2. After more than 20 messages that each carry a point, delivered to the empty
  chart of \<^verbatim>\<open>initializeChart\<close>, the chart holds exactly the last 20 points,
  labels and amounts, oldest first.
\<close>

theorem buffer_keeps_last_20:
  assumes "map chart_point ms = map Inr pts" and "length ms > 20"
  shows "(transactionChart s = None \<longrightarrow>
           map_option (\<lambda>c. (labels c, amounts c))
             (transactionChart (deliver (snd (initializeChart s)) ms)) =
           Some (map fst (drop (length pts - 20) pts), map snd (drop (length pts - 20) pts))) \<and>
         map_option (\<lambda>c. (labels c, amounts c))
           (transactionChart (deliver (s\<lparr>transactionChart := Some new_Chart\<rparr>) ms)) =
         Some (map fst (drop (length pts - 20) pts), map snd (drop (length pts - 20) pts))"
  using deliver_window_fresh[OF assms(1), of s] by (simp add: initializeChart_unused)

theorem buffer_keeps_last_20_witness:
  "map_option (\<lambda>c. (labels c, amounts c))
     (transactionChart (deliver (snd (initializeChart page_at_load))
        (map example_message [0..<23]))) =
   Some (map fst (map example_point [3..<23]), map snd (map example_point [3..<23]))"
proof -
  have h1: "map chart_point (map example_message [0..<23]) = map Inr (map example_point [0..<23])"
    by (simp only: map_map o_def chart_point_example)
  have h2: "20 < length (map example_message [0..<23])"
    by simp
  have r: "drop (length (map example_point [0..<23]) - 20) (map example_point [0..<23]) =
           map example_point [3..<23]"
    by (simp add: drop_map drop_upt)
  from buffer_keeps_last_20[OF h1 h2, unfolded r, of page_at_load] page_at_load_unused
  show ?thesis by blast
qed

text \<open>
  Claim C8. A message whose \<^verbatim>\<open>transaction_id\<close> is the string \<open>tid\<close> and whose
  \<^verbatim>\<open>transaction_details.amount\<close> is \<open>a\<close> makes the handler complete normally and
  append exactly the point (first 8 characters of \<open>tid\<close>, \<open>a\<close>) at the end of both
  arrays; when the chart already held 20 points the oldest one is shifted out. The
  instance below is the message with id \<^verbatim>\<open>abcdef1234567890\<close> and amount 42.5,
  which appends \<^verbatim>\<open>("abcdef12", 42.5)\<close>.
\<close>

theorem message_appends_point:
  assumes "get t ''transaction_id'' = Inr (JStr tid)"
    and "get t ''transaction_details'' = Inr details"
    and "get details ''amount'' = Inr a"
    and "transactionChart s = Some c"
  shows "onmessage s (Some t) =
         (let ls = labels c @ [take 8 tid]; as = amounts c @ [a] in
          (Normal, s\<lparr>transactionChart := Some
             (if length (labels c) < 20
              then c\<lparr>labels := ls, amounts := as, drawn := (ls, as)\<rparr>
              else c\<lparr>labels := tl ls, amounts := tl as, drawn := (tl ls, tl as)\<rparr>)\<rparr>))"
  using assms
  by (simp add: onmessage_def chart_point_def push_point_def update_def Let_def not_less
        less_Suc_eq_le)

theorem message_appends_point_witness:
  "onmessage (snd (initializeChart page_at_load))
     (Some (JObj [(''transaction_id'', JStr ''abcdef1234567890''),
                  (''transaction_details'', JObj [(''amount'', JNum (85 / 2))])])) =
   (Normal, page_at_load\<lparr>transactionChart :=
      Some \<lparr>labels = [''abcdef12''], amounts = [JNum (85 / 2)],
            drawn = ([''abcdef12''], [JNum (85 / 2)])\<rparr>\<rparr>)"
  using message_appends_point[of
      "JObj [(''transaction_id'', JStr ''abcdef1234567890''),
             (''transaction_details'', JObj [(''amount'', JNum (85 / 2 :: rat))])]"
      "''abcdef1234567890''" "JObj [(''amount'', JNum (85 / 2))]" "JNum (85 / 2)"
      "snd (initializeChart page_at_load)" new_Chart]
  by (simp add: initializeChart_def new_Chart_def page_at_load_def onmessage_def chart_point_def
        push_point_def update_def Let_def)

text \<open>
  Claim C3, as the spec states it, asks that a malformed message does not make the handler
  throw and leaves the buffer unchanged. The handler has no \<^verbatim>\<open>try\<close>: on unparseable
  JSON it throws the SyntaxError of \<^verbatim>\<open>JSON.parse\<close>; and a message that has
  \<^verbatim>\<open>transaction_id\<close> and \<^verbatim>\<open>transaction_details\<close> but no amount is not
  rejected at all, it appends a point whose value is \<^verbatim>\<open>undefined\<close>.
\<close>

theorem malformed_message_counterexample:
  "fst (onmessage (snd (initializeChart page_at_load)) None) = Throw SyntaxError \<and>
   onmessage (snd (initializeChart page_at_load))
     (Some (JObj [(''transaction_id'', JStr ''abcdef1234567890''),
                  (''transaction_details'', JObj [])])) =
   (Normal, page_at_load\<lparr>transactionChart :=
      Some \<lparr>labels = [''abcdef12''], amounts = [JUndefined],
            drawn = ([''abcdef12''], [JUndefined])\<rparr>\<rparr>)"
  by (simp add: onmessage_def chart_point_def initializeChart_unused page_at_load_unused
        new_Chart_def push_point_def update_def Let_def)

text \<open>
  Claim C3, amended. A message from which the handler cannot read a point (unparseable
  JSON, or an object without \<^verbatim>\<open>transaction_id\<close> or without
  \<^verbatim>\<open>transaction_details\<close>) makes the handler throw, a SyntaxError respectively a
  TypeError, before it has changed anything: the whole page state (buffer, sockets, timers)
  is as before, the socket stays OPEN and the error is confined to that message. A message
  with a string \<^verbatim>\<open>transaction_id\<close> and an object \<^verbatim>\<open>transaction_details\<close>
  without \<^verbatim>\<open>amount\<close> is handled normally and appends the point (label,
  \<^verbatim>\<open>undefined\<close>).
\<close>

theorem malformed_message_throws:
  "(chart_point m = Inl e \<longrightarrow>
      onmessage s m = (Throw e, s) \<and>
      (i < length (sockets s) \<and> readyState (sockets s ! i) = OPEN \<longrightarrow>
         step nts s (Message i m) = Some s)) \<and>
   chart_point None = Inl SyntaxError \<and>
   (''transaction_id'' \<notin> fst ` set kvs \<or> ''transaction_details'' \<notin> fst ` set kvs \<longrightarrow>
      chart_point (Some (JObj kvs)) = Inl TypeError) \<and>
   (get t ''transaction_id'' = Inr (JStr tid) \<and> get t ''transaction_details'' = Inr (JObj dkvs) \<and>
    ''amount'' \<notin> fst ` set dkvs \<and> transactionChart s = Some c \<longrightarrow>
      onmessage s (Some t) =
        (Normal, s\<lparr>transactionChart := Some (push_point (take 8 tid) JUndefined c)\<rparr>))"
proof (intro conjI impI)
  assume "''transaction_id'' \<notin> fst ` set kvs \<or> ''transaction_details'' \<notin> fst ` set kvs"
  then show "chart_point (Some (JObj kvs)) = Inl TypeError"
    using chart_point_no_id[of "JObj kvs"] chart_point_no_details[of "JObj kvs"] get_missing[of _ kvs]
    by blast
next
  assume "get t ''transaction_id'' = Inr (JStr tid) \<and>
          get t ''transaction_details'' = Inr (JObj dkvs) \<and>
          ''amount'' \<notin> fst ` set dkvs \<and> transactionChart s = Some c"
  then show "onmessage s (Some t) =
        (Normal, s\<lparr>transactionChart := Some (push_point (take 8 tid) JUndefined c)\<rparr>)"
    using get_missing[of "''amount''" dkvs] by (simp add: onmessage_def chart_point_def)
qed (simp_all add: onmessage_def chart_point_def)

theorem malformed_message_throws_witness:
  "onmessage (snd (initializeChart page_logged_in))
     (Some (JObj [(''transaction_id'', JNum 7)])) =
     (Throw TypeError, snd (initializeChart page_logged_in)) \<and>
   step no_number_text (page_logged_in\<lparr>sockets := map (readyState_update (\<lambda>_. OPEN))
                                                    (sockets page_logged_in)\<rparr>)
     (Message 0 (Some (JObj [(''transaction_id'', JNum 7)]))) =
   Some (page_logged_in\<lparr>sockets := map (readyState_update (\<lambda>_. OPEN))
                                        (sockets page_logged_in)\<rparr>)"
proof -
  have cp: "chart_point (Some (JObj [(''transaction_id'', JNum (7::rat))])) = Inl TypeError"
    by (simp add: chart_point_def)
  let ?s = "page_logged_in\<lparr>sockets := map (readyState_update (\<lambda>_. OPEN))
                                        (sockets page_logged_in)\<rparr>"
  have en: "0 < length (sockets ?s) \<and> readyState (sockets ?s ! 0) = OPEN"
    by (simp add: page_logged_in_def page_at_load_def login_def initializeChart_def
          connectWebSocket_def Let_def)
  from malformed_message_throws[of "Some (JObj [(''transaction_id'', JNum 7)])" TypeError
         "snd (initializeChart page_logged_in)"] cp
  have a: "onmessage (snd (initializeChart page_logged_in))
     (Some (JObj [(''transaction_id'', JNum 7)])) =
     (Throw TypeError, snd (initializeChart page_logged_in))" by blast
  from malformed_message_throws[of "Some (JObj [(''transaction_id'', JNum 7)])" TypeError ?s 0
         no_number_text] cp en
  have b: "step no_number_text ?s (Message 0 (Some (JObj [(''transaction_id'', JNum 7)]))) = Some ?s"
    by blast
  from a b show ?thesis by blast
qed

text \<open>
  Claim C9. The render step is \<^verbatim>\<open>transactionChart.update()\<close>. Each call shows
  exactly the current label and amount arrays and leaves the arrays alone, so a second
  call on an unchanged buffer gives the same chart as the first; in particular rendering
  once more after the message handler has run changes nothing.
\<close>

theorem render_idempotent:
  "update (update c) = update c \<and>
   drawn (update c) = (labels c, amounts c) \<and>
   labels (update c) = labels c \<and> amounts (update c) = amounts c \<and>
   update (push_point l a c) = push_point l a c"
  by (simp add: update_def push_point_def Let_def)

lemma connectWebSocket_chart:
  "transactionChart (snd (connectWebSocket nts s)) = transactionChart s"
  by (auto simp: connectWebSocket_def split: sum.splits)

lemma login_chart:
  "transactionChart (snd (login nts s r)) = transactionChart s \<or>
   transactionChart (snd (login nts s r)) = Some new_Chart"
  by (cases "transactionChart s")
     (auto simp: login_def Let_def initializeChart_def connectWebSocket_def
        split: sum.splits option.splits prod.splits)

lemma login_agree:
  assumes "lengths_agree s"
  shows "lengths_agree (snd (login nts s r))"
  using login_chart[of nts s r] assms by (auto simp: lengths_agree_def new_Chart_def)

lemma step_agree:
  assumes "lengths_agree s" and "step nts s e = Some s'"
  shows "lengths_agree s'"
proof (cases e)
  case (Message i m)
  with assms(2) have "s' = snd (onmessage s m)" by (auto split: if_splits)
  with assms(1) show ?thesis by (simp add: onmessage_agree)
qed (use assms in \<open>auto simp: lengths_agree_def onopen_def set_readyState_def onerror_def
        onclose_def connectWebSocket_chart Let_def split: if_splits\<close>)

text \<open>
  Claim C10. The labels array and the amounts array always have the same length:
  \<^verbatim>\<open>initializeChart\<close> creates both empty (or throws and leaves the chart as it
  was), and the message handler, \<^verbatim>\<open>login\<close> and every event of the transport client
  keep the lengths equal.
\<close>

theorem arrays_same_length:
  "(transactionChart s0 = None \<longrightarrow> lengths_agree (snd (initializeChart s0))) \<and>
   lengths_agree (s0\<lparr>transactionChart := Some new_Chart\<rparr>) \<and>
   (lengths_agree s \<longrightarrow>
      lengths_agree (snd (onmessage s m)) \<and>
      lengths_agree (snd (login nts s r)) \<and>
      lengths_agree (snd (initializeChart s)) \<and>
      (\<forall>e s'. step nts s e = Some s' \<longrightarrow> lengths_agree s'))"
  using onmessage_agree[of s m] login_agree[of s nts r] step_agree[of s nts]
    initializeChart_agree[of s]
  by (auto simp: lengths_agree_def initializeChart_def new_Chart_def)

theorem arrays_same_length_witness:
  "lengths_agree (snd (initializeChart page_at_load)) \<and>
   lengths_agree (snd (onmessage (snd (initializeChart page_at_load)) (example_message 3)))"
  using arrays_same_length[where ?s0.0 = page_at_load
      and s = "snd (initializeChart page_at_load)" and m = "example_message 3"]
    page_at_load_unused
  by blast

section \<open>Login\<close>

text \<open>
  Claim C6. A response with status 200 and body \<^verbatim>\<open>{"access_token":"abc123"}\<close>, in
  any page state: the token is \<^verbatim>\<open>"abc123"\<close>, the chart container is displayed and
  the login form hidden. On a page without a chart (the canvas is unused, as at every
  first login) \<^verbatim>\<open>login\<close> completes normally, a fresh chart is created and one
  WebSocket is constructed, with the token in its URL. On a page that already has a chart
  \<^verbatim>\<open>login\<close> does not complete: the Chart constructor throws, the chart and the
  sockets stay as they were.
\<close>

theorem login_success:
  assumes "login nts s (Some (200, Some (JObj [(''access_token'', JStr ''abc123'')]))) =
           (outcome, s')"
  shows "accessToken s' = JStr ''abc123'' \<and>
         login_status s' = ''Login successful!'' \<and>
         login_form_display s' = ''none'' \<and>
         chart_container_display s' = ''block'' \<and>
         (transactionChart s = None \<longrightarrow>
            outcome = Normal \<and>
            s' = s\<lparr>accessToken := JStr ''abc123'',
                    transactionChart := Some new_Chart,
                    login_status := ''Login successful!'',
                    login_form_display := ''none'',
                    chart_container_display := ''block'',
                    sockets := sockets s @
                      [\<lparr>url = (if location_protocol s = ''https:'' then ''wss'' else ''ws'') @
                              ''://'' @ location_host s @ ''/ws/transactions?token=abc123'',
                        readyState = CONNECTING\<rparr>]\<rparr>) \<and>
         (transactionChart s \<noteq> None \<longrightarrow>
            outcome = Throw CanvasInUseError \<and>
            transactionChart s' = transactionChart s \<and> sockets s' = sockets s)"
  using assms
  by (cases "transactionChart s")
     (auto simp: login_def initializeChart_def connectWebSocket_def wsUrl_def Let_def)

theorem login_success_witness:
  "login no_number_text page_at_load
     (Some (200, Some (JObj [(''access_token'', JStr ''abc123'')]))) =
   (Normal, page_at_load\<lparr>accessToken := JStr ''abc123'',
              transactionChart := Some new_Chart,
              login_status := ''Login successful!'',
              login_form_display := ''none'',
              chart_container_display := ''block'',
              sockets := [\<lparr>url = ''ws://localhost:8000/ws/transactions?token=abc123'',
                           readyState = CONNECTING\<rparr>]\<rparr>)"
proof -
  obtain outcome s' where r: "login no_number_text page_at_load
     (Some (200, Some (JObj [(''access_token'', JStr ''abc123'')]))) = (outcome, s')"
    by (cases "login no_number_text page_at_load
     (Some (200, Some (JObj [(''access_token'', JStr ''abc123'')])))")
  from login_success[OF r] page_at_load_unused
  have "outcome = Normal" and
    "s' = page_at_load\<lparr>accessToken := JStr ''abc123'',
                    transactionChart := Some new_Chart,
                    login_status := ''Login successful!'',
                    login_form_display := ''none'',
                    chart_container_display := ''block'',
                    sockets := sockets page_at_load @
                      [\<lparr>url = (if location_protocol page_at_load = ''https:'' then ''wss''
                               else ''ws'') @
                              ''://'' @ location_host page_at_load @
                              ''/ws/transactions?token=abc123'',
                        readyState = CONNECTING\<rparr>]\<rparr>"
    by blast+
  moreover have "sockets page_at_load = []" "location_protocol page_at_load = ''http:''"
    "location_host page_at_load = ''localhost:8000''"
    by (simp_all add: page_at_load_def)
  ultimately show ?thesis using r by simp
qed

lemma login_canvas_in_use:
  "transactionChart s = Some c \<Longrightarrow> get data ''access_token'' = Inr token \<Longrightarrow>
   login nts s (Some (200, Some data)) =
   (Throw CanvasInUseError,
    s\<lparr>accessToken := token, login_status := ''Login successful!'',
      login_form_display := ''none'', chart_container_display := ''block''\<rparr>)"
  by (simp add: login_def initializeChart_def Let_def)

text \<open>
  Claim C7. A response with a status other than 200 and body
  \<^verbatim>\<open>{"detail":"Invalid credentials"}\<close>: the status text becomes
  \<^verbatim>\<open>Login failed: Invalid credentials\<close> and nothing else changes; the chart
  container keeps its display value, the token is unchanged and no socket is constructed.
\<close>

theorem login_failure:
  assumes "status \<noteq> 200"
    and "login nts s (Some (status, Some (JObj [(''detail'', JStr ''Invalid credentials'')]))) =
         (outcome, s')"
  shows "outcome = Normal \<and>
         s' = s\<lparr>login_status := ''Login failed: Invalid credentials''\<rparr> \<and>
         login_status s' = ''Login failed: Invalid credentials'' \<and>
         chart_container_display s' = chart_container_display s \<and>
         login_form_display s' = login_form_display s \<and>
         accessToken s' = accessToken s \<and>
         transactionChart s' = transactionChart s \<and>
         sockets s' = sockets s \<and> timers s' = timers s"
  using assms by (auto simp: login_def)

theorem login_failure_witness:
  "login no_number_text page_at_load
     (Some (401, Some (JObj [(''detail'', JStr ''Invalid credentials'')]))) =
   (Normal, page_at_load\<lparr>login_status := ''Login failed: Invalid credentials''\<rparr>) \<and>
   chart_container_display (page_at_load\<lparr>login_status := ''Login failed: Invalid credentials''\<rparr>)
     = ''none''"
proof -
  obtain outcome s' where r: "login no_number_text page_at_load
     (Some (401, Some (JObj [(''detail'', JStr ''Invalid credentials'')]))) = (outcome, s')"
    by (cases "login no_number_text page_at_load
     (Some (401, Some (JObj [(''detail'', JStr ''Invalid credentials'')])))")
  have ne: "(401::nat) \<noteq> 200" by simp
  from login_failure[OF ne r] r show ?thesis by (simp add: page_at_load_def)
qed

section \<open>The transport client\<close>

lemma connectWebSocket_cases:
  "snd (connectWebSocket nts s) = s \<or>
   (\<exists>token. ToString nts (accessToken s) = Inr token \<and> CHR ''#'' \<notin> set token \<and>
      connectWebSocket nts s =
        (Normal, s\<lparr>sockets := sockets s @ [\<lparr>url = wsUrl s token, readyState = CONNECTING\<rparr>]\<rparr>))"
  by (auto simp: connectWebSocket_def split: sum.splits)

lemma connectWebSocket_transport:
  "timers (snd (connectWebSocket nts s)) = timers s \<and>
   now (snd (connectWebSocket nts s)) = now s \<and>
   accessToken (snd (connectWebSocket nts s)) = accessToken s \<and>
   (sockets (snd (connectWebSocket nts s)) = sockets s \<or>
    (\<exists>u. sockets (snd (connectWebSocket nts s)) =
           sockets s @ [\<lparr>url = u, readyState = CONNECTING\<rparr>]))"
  using connectWebSocket_cases[of nts s] by auto

lemma connectWebSocket_live:
  "live (snd (connectWebSocket nts s)) \<le> Suc (live s)"
  using connectWebSocket_transport[of nts s] by (auto simp: live_def)

lemma filter_update_same:
  "i < length xs \<Longrightarrow> P (xs ! i) = P x \<Longrightarrow>
   length (filter P (xs[i := x])) = length (filter P xs)"
proof (induction xs arbitrary: i)
  case Nil
  then show ?case by simp
next
  case (Cons y ys)
  then show ?case by (cases i) auto
qed

lemma filter_update_drop:
  "i < length xs \<Longrightarrow> P (xs ! i) \<Longrightarrow> \<not> P x \<Longrightarrow>
   Suc (length (filter P (xs[i := x]))) = length (filter P xs)"
proof (induction xs arbitrary: i)
  case Nil
  then show ?case by simp
next
  case (Cons y ys)
  then show ?case by (cases i) auto
qed

lemma step_balance:
  assumes "step nts s e = Some s'"
  shows "live s' + length (timers s') \<le> live s + length (timers s)"
proof (cases e)
  case (Open i)
  with assms show ?thesis
    by (auto simp: live_def onopen_def set_readyState_def filter_update_same split: if_splits)
next
  case (Message i m)
  with assms show ?thesis
    by (auto simp: live_def onmessage_transport split: if_splits)
next
  case (Error i)
  with assms show ?thesis
    by (auto simp: live_def onerror_def ws_close_def filter_update_same split: if_splits)
next
  case (Close i b)
  with assms have en: "i < length (sockets s)" "readyState (sockets s ! i) \<noteq> CLOSED"
    by (auto split: if_splits)
  have "Suc (length (filter (\<lambda>w. readyState w \<noteq> CLOSED)
          ((sockets s)[i := (sockets s ! i)\<lparr>readyState := CLOSED\<rparr>]))) = live s"
    unfolding live_def using en by (intro filter_update_drop) auto
  with Close assms en show ?thesis
    by (auto simp: live_def onclose_def onerror_def ws_close_def set_readyState_def Let_def)
next
  case (Timeout k)
  let ?s1 = "s\<lparr>timers := take k (timers s) @ drop (Suc k) (timers s)\<rparr>"
  from Timeout assms have k: "k < length (timers s)" and s': "s' = snd (connectWebSocket nts ?s1)"
    by (auto split: if_splits)
  have "live s' \<le> Suc (live ?s1)" unfolding s' by (rule connectWebSocket_live)
  moreover have "live ?s1 = live s" by (simp add: live_def)
  moreover have "Suc (length (timers s')) = length (timers s)"
    unfolding s' using k by (simp add: connectWebSocket_transport)
  ultimately show ?thesis by simp
next
  case (Tick d)
  with assms show ?thesis by (auto simp: live_def)
qed

lemma run_balance:
  "run nts s es = Some s' \<Longrightarrow> live s' + length (timers s') \<le> live s + length (timers s)"
proof (induction es arbitrary: s)
  case Nil
  then show ?case by simp
next
  case (Cons e es)
  then show ?case by (fastforce split: option.splits dest: step_balance)
qed

lemma schedule_needs_live:
  assumes "step nts s e = Some s'" "length (timers s') > length (timers s)"
  shows "live s > 0"
proof -
  have nz: "i < length xs \<Longrightarrow> P (xs ! i) \<Longrightarrow> filter P xs \<noteq> []" for i and xs :: "websocket list" and P
    by (metis filter_empty_conv nth_mem)
  from assms show ?thesis
  proof (cases e)
    case (Close i b)
    with assms(1) have "i < length (sockets s)" "readyState (sockets s ! i) \<noteq> CLOSED"
      by (auto split: if_splits)
    then show ?thesis unfolding live_def using nz[of i "sockets s" "\<lambda>w. readyState w \<noteq> CLOSED"]
      by simp
  qed (auto simp: onopen_def set_readyState_def onmessage_transport onerror_def
         connectWebSocket_transport split: if_splits)
qed

lemma step_now_mono: "step nts s e = Some s' \<Longrightarrow> now s \<le> now s'"
  by (cases e)
     (auto simp: onopen_def set_readyState_def onmessage_transport onerror_def onclose_def
        connectWebSocket_transport Let_def split: if_splits)

lemma step_before_due:
  assumes "step nts s e = Some s'" and "now s' < due" and "\<forall>t\<in>set (timers s). due \<le> t"
    and "now s0 + 5000 = due" and "now s0 \<le> now s"
  shows "(\<forall>t\<in>set (timers s'). due \<le> t) \<and> length (sockets s') = length (sockets s)"
proof (cases e)
  case (Timeout k)
  with assms(1) have "k < length (timers s)" "timers s ! k \<le> now s" "now s' = now s"
    by (auto simp: connectWebSocket_transport split: if_splits)
  with assms(2,3) show ?thesis by (metis leD le_less_trans nth_mem not_le order_trans)
next
  case (Close i b)
  with assms show ?thesis
    by (auto simp: onclose_def onerror_def set_readyState_def Let_def split: if_splits)
qed (use assms in \<open>auto simp: onopen_def set_readyState_def onmessage_transport onerror_def
        split: if_splits\<close>)

lemma run_before_due:
  "run nts s es = Some s' \<Longrightarrow> now s' < due \<Longrightarrow> \<forall>t\<in>set (timers s). due \<le> t \<Longrightarrow>
   now s0 + 5000 = due \<Longrightarrow> now s0 \<le> now s \<Longrightarrow>
   length (sockets s') = length (sockets s)"
proof (induction es arbitrary: s)
  case Nil
  then show ?case by simp
next
  case (Cons e es)
  from Cons.prems(1) obtain s1 where e: "step nts s e = Some s1" and r: "run nts s1 es = Some s'"
    by (auto split: option.splits)
  have mono: "now s \<le> now s1" using e by (rule step_now_mono)
  have "run nts s1 es = Some s' \<Longrightarrow> now s1 \<le> now s'" for s1 s'
    by (induction es arbitrary: s1) (auto split: option.splits dest: step_now_mono intro: order_trans)
  with r have "now s1 \<le> now s'" by blast
  with Cons.prems(2) have lt: "now s1 < due" by simp
  from step_before_due[OF e lt Cons.prems(3,4,5)]
  have inv: "\<forall>t\<in>set (timers s1). due \<le> t" and len: "length (sockets s1) = length (sockets s)"
    by auto
  from Cons.IH[OF r Cons.prems(2) inv Cons.prems(4)] mono Cons.prems(5) len
  show ?case by simp
qed

text \<open>
  Claim C4. Every close event, clean or caused by an error, in any state (so without a
  retry limit or a growing delay): the handler sets exactly one timer, due 5000 ms after
  the close, and constructs no socket itself. If no other reconnect was pending, no socket
  is constructed before 5000 ms have passed, whatever happens in between. A timer fires
  only when it is due; firing removes it and runs \<^verbatim>\<open>connectWebSocket\<close> once, which
  constructs exactly one socket whose URL ends in \<^verbatim>\<open>token=\<close> followed by the
  token current at that moment. Only a token that has no string conversion or contains
  \<^verbatim>\<open>#\<close> makes that attempt throw, and then it leaves no socket.
\<close>

theorem reconnect_after_close:
  "(i < length (sockets s) \<and> readyState (sockets s ! i) \<noteq> CLOSED \<longrightarrow>
      (\<exists>s1. step nts s (Close i was_error) = Some s1 \<and>
            timers s1 = timers s @ [now s + 5000] \<and>
            length (sockets s1) = length (sockets s) \<and>
            readyState (sockets s1 ! i) = CLOSED \<and>
            accessToken s1 = accessToken s \<and>
            (\<forall>es s2. timers s = [] \<and> run nts s1 es = Some s2 \<and> now s2 < now s + 5000
                      \<longrightarrow> length (sockets s2) = length (sockets s)))) \<and>
   (step nts s (Timeout k) = Some s3 \<longrightarrow>
      k < length (timers s) \<and> timers s ! k \<le> now s \<and>
      timers s3 = take k (timers s) @ drop (Suc k) (timers s) \<and>
      accessToken s3 = accessToken s \<and>
      (\<forall>token. ToString nts (accessToken s) = Inr token \<and> CHR ''#'' \<notin> set token \<longrightarrow>
         sockets s3 = sockets s @
           [\<lparr>url = (if location_protocol s = ''https:'' then ''wss'' else ''ws'') @ ''://'' @
                   location_host s @ ''/ws/transactions?token='' @ token,
             readyState = CONNECTING\<rparr>]) \<and>
      ((\<forall>token. ToString nts (accessToken s) = Inr token \<longrightarrow> CHR ''#'' \<in> set token) \<longrightarrow>
         sockets s3 = sockets s))"
proof (intro conjI impI)
  assume en: "i < length (sockets s) \<and> readyState (sockets s ! i) \<noteq> CLOSED"
  define s1 where "s1 = onclose (let s1 = set_readyState i CLOSED s in
                                 if was_error then onerror s1 i else s1)"
  have st: "step nts s (Close i was_error) = Some s1"
    using en by (simp add: s1_def Let_def)
  have t: "timers s1 = timers s @ [now s + 5000]"
    by (simp add: s1_def onclose_def onerror_def set_readyState_def Let_def)
  have l: "length (sockets s1) = length (sockets s)"
    by (simp add: s1_def onclose_def onerror_def set_readyState_def Let_def)
  have c: "readyState (sockets s1 ! i) = CLOSED"
    using en by (simp add: s1_def onclose_def onerror_def set_readyState_def ws_close_def Let_def)
  have a: "accessToken s1 = accessToken s"
    by (simp add: s1_def onclose_def onerror_def set_readyState_def Let_def)
  have n: "now s1 = now s"
    by (simp add: s1_def onclose_def onerror_def set_readyState_def Let_def)
  have "length (sockets s2) = length (sockets s)"
    if "timers s = [] \<and> run nts s1 es = Some s2 \<and> now s2 < now s + 5000" for es s2
  proof -
    have "length (sockets s2) = length (sockets s1)"
      using that t n by (intro run_before_due[of nts s1 es s2 "now s + 5000" s]) auto
    with l show ?thesis by simp
  qed
  with st t l c a
  show "\<exists>s1. step nts s (Close i was_error) = Some s1 \<and>
            timers s1 = timers s @ [now s + 5000] \<and>
            length (sockets s1) = length (sockets s) \<and>
            readyState (sockets s1 ! i) = CLOSED \<and>
            accessToken s1 = accessToken s \<and>
            (\<forall>es s2. timers s = [] \<and> run nts s1 es = Some s2 \<and> now s2 < now s + 5000
                      \<longrightarrow> length (sockets s2) = length (sockets s))"
    by blast
qed (auto simp: connectWebSocket_def wsUrl_def split: if_splits sum.splits)

lemma page_logged_in_eq:
  "page_logged_in =
     page_at_load\<lparr>accessToken := JStr ''abc123'',
              transactionChart := Some new_Chart,
              login_status := ''Login successful!'',
              login_form_display := ''none'',
              chart_container_display := ''block'',
              sockets := [\<lparr>url = ''ws://localhost:8000/ws/transactions?token=abc123'',
                           readyState = CONNECTING\<rparr>]\<rparr>"
  by (simp add: page_logged_in_def page_at_load_def login_def initializeChart_def
        connectWebSocket_def wsUrl_def Let_def)

theorem reconnect_after_close_witness:
  "\<exists>s1 s3. step no_number_text page_logged_in (Close 0 True) = Some s1 \<and>
     timers s1 = [5000] \<and> length (sockets s1) = 1 \<and>
     step no_number_text (s1\<lparr>now := 5000\<rparr>) (Timeout 0) = Some s3 \<and>
     timers s3 = [] \<and>
     sockets s3 = sockets s1 @
       [\<lparr>url = ''ws://localhost:8000/ws/transactions?token=abc123'', readyState = CONNECTING\<rparr>]"
proof -
  let ?s = page_logged_in
  have en: "0 < length (sockets ?s) \<and> readyState (sockets ?s ! 0) \<noteq> CLOSED"
    by (simp add: page_logged_in_eq)
  from reconnect_after_close[of 0 ?s no_number_text True] en
  obtain s1 where s1: "step no_number_text ?s (Close 0 True) = Some s1"
    "timers s1 = timers ?s @ [now ?s + 5000]" "length (sockets s1) = length (sockets ?s)"
    "accessToken s1 = accessToken ?s"
    by blast
  have t: "timers s1 = [5000]" and l: "length (sockets s1) = 1"
    and a: "accessToken s1 = JStr ''abc123''"
    using s1(2,3,4) by (simp_all add: page_logged_in_eq page_at_load_def)
  have loc: "location_protocol s1 = ''http:''" "location_host s1 = ''localhost:8000''"
    using s1(1) en
    by (auto simp: page_logged_in_eq page_at_load_def onclose_def onerror_def
          set_readyState_def Let_def)
  have "step no_number_text (s1\<lparr>now := 5000\<rparr>) (Timeout 0) \<noteq> None"
    using t by simp
  then obtain s3 where s3: "step no_number_text (s1\<lparr>now := 5000\<rparr>) (Timeout 0) = Some s3"
    by blast
  have tok: "ToString no_number_text (accessToken (s1\<lparr>now := 5000\<rparr>)) = Inr ''abc123'' \<and>
             CHR ''#'' \<notin> set ''abc123''"
    using a by simp
  from reconnect_after_close[of _ "s1\<lparr>now := 5000\<rparr>" no_number_text _ 0 s3] s3 tok
  have "timers s3 = take 0 (timers (s1\<lparr>now := 5000\<rparr>)) @ drop (Suc 0) (timers (s1\<lparr>now := 5000\<rparr>))"
    "sockets s3 = sockets (s1\<lparr>now := 5000\<rparr>) @
       [\<lparr>url = (if location_protocol (s1\<lparr>now := 5000\<rparr>) = ''https:'' then ''wss'' else ''ws'') @
               ''://'' @ location_host (s1\<lparr>now := 5000\<rparr>) @
               ''/ws/transactions?token='' @ ''abc123'',
         readyState = CONNECTING\<rparr>]"
    by blast+
  then have "timers s3 = []"
    "sockets s3 = sockets s1 @
       [\<lparr>url = ''ws://localhost:8000/ws/transactions?token=abc123'', readyState = CONNECTING\<rparr>]"
    using t loc by simp_all
  with s1(1) t l s3 show ?thesis by blast
qed

text \<open>
  Claim C5. After the one call of \<^verbatim>\<open>connectWebSocket\<close> that \<^verbatim>\<open>login\<close> makes on
  a page without sockets and timers (whether or not that call throws), and any sequence
  of transport events: at most one socket is not yet closed (so at most one is open), at
  most one reconnect timer is pending, and an event that sets a reconnect timer finds none
  pending.
\<close>

theorem single_connection:
  assumes "sockets s0 = []" and "timers s0 = []"
    and "run nts (snd (connectWebSocket nts s0)) es = Some s"
  shows "live s \<le> 1 \<and> length (timers s) \<le> 1 \<and>
         (\<forall>e s'. step nts s e = Some s' \<and> length (timers s') > length (timers s)
                  \<longrightarrow> timers s = [])"
proof -
  have "live (snd (connectWebSocket nts s0)) \<le> Suc (live s0)"
    by (rule connectWebSocket_live)
  moreover have "live s0 = 0" using assms(1) by (simp add: live_def)
  ultimately have bal: "live s + length (timers s) \<le> 1"
    using run_balance[OF assms(3)] assms(2) by (simp add: connectWebSocket_transport)
  have "timers s = []" if "step nts s e = Some s'" "length (timers s') > length (timers s)"
    for e s'
  proof -
    have "live s > 0" using that by (rule schedule_needs_live)
    with bal have "length (timers s) = 0" by linarith
    then show ?thesis by simp
  qed
  with bal show ?thesis by auto
qed

theorem single_connection_witness:
  "\<exists>s. run no_number_text (snd (connectWebSocket no_number_text page_at_load))
          [Open 0, Error 0, Close 0 False, Tick 5000, Timeout 0, Open 1] = Some s \<and>
       live s \<le> 1 \<and> length (timers s) \<le> 1"
proof -
  have "run no_number_text (snd (connectWebSocket no_number_text page_at_load))
          [Open 0, Error 0, Close 0 False, Tick 5000, Timeout 0, Open 1] \<noteq> None"
    by (simp add: connectWebSocket_def page_at_load_def onopen_def onerror_def onclose_def
          set_readyState_def ws_close_def wsUrl_def Let_def)
  then obtain s where s: "run no_number_text (snd (connectWebSocket no_number_text page_at_load))
          [Open 0, Error 0, Close 0 False, Tick 5000, Timeout 0, Open 1] = Some s"
    by blast
  have "sockets page_at_load = []" "timers page_at_load = []"
    by (simp_all add: page_at_load_def)
  from single_connection[OF this s] s show ?thesis by blast
qed

end
